theory Spec2Isabelle
  imports Main
begin

section \<open>JavaScript values and errors\<close>

text \<open>
  The component works on the dynamically typed values that the JSON parser hands back.
  Strings are byte strings (the UTF-8 bytes of the text). Numbers are restricted to
  integers; an object is its list of own properties in insertion order, looked up by key.
\<close>

datatype jsval =
    JUndefined
  | JNull
  | JBool bool
  | JNum int
  | JStr string
  | JArr "jsval list"
  | JObj "(string \<times> jsval) list"

text \<open>
  What a render can throw: the \<open>TypeError\<close> of the language itself, or whatever the
  parser collaborator throws (carried as a message).
\<close>

datatype js_error = TypeError | ParserThrew string

type_synonym parser = "jsval \<Rightarrow> js_error + jsval"

section \<open>Props\<close>

text \<open>
  Modelled from the spec: \<open>ModelTradeRendererProps\<close> is declared in \<open>@/types/renderer\<close>,
  which is not among the sources. The spec gives it a string \<open>content\<close> and an optional
  \<open>height\<close>; the example in the component's doc comment passes the number 400.
\<close>

record props =
  content :: string
  height :: "int option"

section \<open>The element tree\<close>

text \<open>
  What the component returns: host elements with their tag, class name and children,
  literal text, an embedded expression \<open>{e}\<close> carrying the value of \<open>e\<close>, and an element
  of another component with its props.
\<close>

datatype vnode =
    Element string string "vnode list"
  | Text string
  | Expr jsval
  | Component string "(string \<times> jsval) list"

section \<open>Destructuring\<close>

text \<open>
  \<open>const { title, data } = v\<close> reads two properties of \<open>v\<close>. Only these two keys are
  ever read, and no built-in prototype defines either, so every value except an object
  with such an own property yields \<open>undefined\<close>. Destructuring \<open>null\<close> or \<open>undefined\<close>
  throws a \<open>TypeError\<close>.
\<close>

datatype field = Title | Data

fun field_name :: "field \<Rightarrow> string" where
  "field_name Title = ''title''"
| "field_name Data = ''data''"

fun read_field :: "jsval \<Rightarrow> field \<Rightarrow> jsval" where
  "read_field (JObj ps) k = (case map_of ps (field_name k) of Some v \<Rightarrow> v | None \<Rightarrow> JUndefined)"
| "read_field v k = JUndefined"

definition destructure :: "jsval \<Rightarrow> js_error + (jsval \<times> jsval)" where
  "destructure v =
     (if v = JUndefined \<or> v = JNull then Inl TypeError
      else Inr (read_field v Title, read_field v Data))"

section \<open>The component\<close>

text \<open>
  The text of the second numbered line holds, between \<open>caution\<close> and \<open>markets\<close>, the bytes
  C3 A2 E2 82 AC E2 80 9D, exactly as the source file has them. JSX joins the lines of a
  text child with single spaces and drops the indentation.
\<close>

definition dash_bytes :: string where
  "dash_bytes = [CHR 0xC3, CHR 0xA2, CHR 0xE2, CHR 0x82, CHR 0xAC, CHR 0xE2, CHR 0x80, CHR 0x9D]"

definition markup :: "jsval \<Rightarrow> jsval \<Rightarrow> vnode" where
  "markup title parsedData =
     Element ''div'' ''flex size-full flex-col justify-between gap-3 px-2 py-6''
      [Element ''div'' ''flex flex-1 flex-col gap-6''
        [Element ''h3'' ''font-semibold text-base text-gray-950'' [Expr title],
         Component ''MultiLineChart'' [(''data'', parsedData), (''height'', JStr ''90%'')]],
       Element ''div'' ''flex w-full flex-col gap-4''
        [Element ''p'' ''font-medium text-gray-950 text-sm''
          [Text ''Disclaimer & Tool Reminder:''],
         Element ''div'' ''flex w-full flex-col gap-2 text-gray-700 text-xs''
          [Element ''p'' ''w-full''
            [Text (''1. The AI tools are for simulation only and do not provide ''
                   @ ''investment advice'')],
           Element ''p'' ''w-full''
            [Text (''2. The tools may contain errors or delays and cannot account for all ''
                   @ ''market factors. You are solely responsible for your trading ''
                   @ ''decisions. Use caution '' @ dash_bytes @ '' markets involve risk.'')]]]]"

text \<open>
  The function component. The parser is the external collaborator, taken as a parameter:
  it is called on the content string, the result is destructured, and it is called again
  on whatever \<open>data\<close> was. Anything thrown on the way leaves the render.
\<close>

definition ModelTradeRenderer :: "parser \<Rightarrow> props \<Rightarrow> js_error + vnode" where
  "ModelTradeRenderer parse p =
     (case parse (JStr (content p)) of
        Inl e \<Rightarrow> Inl e
      | Inr envelope \<Rightarrow>
          (case destructure envelope of
             Inl e \<Rightarrow> Inl e
           | Inr (title, data) \<Rightarrow>
               (case parse data of
                  Inl e \<Rightarrow> Inl e
                | Inr parsedData \<Rightarrow> Inr (markup title parsedData))))"

section \<open>The parser collaborator\<close>

subsection \<open>Strict JSON decoding\<close>

text \<open>
  A decoder for a fragment of JSON: the literals, integers of at most 15 digits, strings
  with the one-letter escapes, arrays and objects. It answers \<open>None\<close> on text that is not
  JSON and also on JSON outside the fragment (fractions, exponents, \<open>-0\<close>, \<open>\u\<close> escapes).
\<close>

definition is_ws :: "char \<Rightarrow> bool" where
  "is_ws c = (c = CHR '' '' \<or> c = CHR 0x09 \<or> c = CHR 0x0A \<or> c = CHR 0x0D)"

definition skip_ws :: "string \<Rightarrow> string" where
  "skip_ws s = dropWhile is_ws s"

definition is_digit :: "char \<Rightarrow> bool" where
  "is_digit c = (48 \<le> (of_char c :: nat) \<and> (of_char c :: nat) \<le> 57)"

definition digits_value :: "string \<Rightarrow> int" where
  "digits_value ds = foldl (\<lambda>a c. 10 * a + (int (of_char c) - 48)) 0 ds"

definition json_number :: "string \<Rightarrow> (jsval \<times> string) option" where
  "json_number s =
     (let neg = (s \<noteq> [] \<and> hd s = CHR ''-'');
          s1 = (if neg then tl s else s);
          ds = takeWhile is_digit s1;
          rest = dropWhile is_digit s1
      in if ds = [] then None
         else if 1 < length ds \<and> hd ds = CHR ''0'' then None
         else if 15 < length ds then None
         else if rest \<noteq> [] \<and> (hd rest = CHR ''.'' \<or> hd rest = CHR ''e'' \<or> hd rest = CHR ''E'') then None
         else if neg \<and> digits_value ds = 0 then None
         else Some (JNum (if neg then - digits_value ds else digits_value ds), rest))"

definition unescape :: "char \<Rightarrow> char option" where
  "unescape e =
     (if e = CHR 0x22 then Some (CHR 0x22)
      else if e = CHR 0x5C then Some (CHR 0x5C)
      else if e = CHR ''/'' then Some (CHR ''/'')
      else if e = CHR ''b'' then Some (CHR 0x08)
      else if e = CHR ''f'' then Some (CHR 0x0C)
      else if e = CHR ''n'' then Some (CHR 0x0A)
      else if e = CHR ''r'' then Some (CHR 0x0D)
      else if e = CHR ''t'' then Some (CHR 0x09)
      else None)"

text \<open>The characters of a string after its opening quote, up to the closing one.\<close>

fun json_chars :: "string \<Rightarrow> (string \<times> string) option" where
  "json_chars [] = None"
| "json_chars [c] = (if c = CHR 0x22 then Some ([], []) else None)"
| "json_chars (c # e # cs) =
     (if c = CHR 0x22 then Some ([], e # cs)
      else if c = CHR 0x5C then
        (case unescape e of
           None \<Rightarrow> None
         | Some ch \<Rightarrow>
             (case json_chars cs of
                None \<Rightarrow> None
              | Some (str, rest) \<Rightarrow> Some (ch # str, rest)))
      else if (of_char c :: nat) < 32 then None
      else
        (case json_chars (e # cs) of
           None \<Rightarrow> None
         | Some (str, rest) \<Rightarrow> Some (c # str, rest)))"

text \<open>
  A repeated key keeps its place and takes the later value, as \<open>JSON.parse\<close> has it.
\<close>

fun set_prop :: "string \<Rightarrow> jsval \<Rightarrow> (string \<times> jsval) list \<Rightarrow> (string \<times> jsval) list" where
  "set_prop k v [] = [(k, v)]"
| "set_prop k v ((k', v') # ps) =
     (if k' = k then (k, v) # ps else (k', v') # set_prop k v ps)"

text \<open>
  Values, array elements and object members. The first argument bounds the number of
  nested calls; \<open>JSON_parse\<close> starts it above the length of the text, and running out of
  it is answered like text that does not decode.
\<close>

fun json_value :: "nat \<Rightarrow> string \<Rightarrow> (jsval \<times> string) option"
  and json_elements :: "nat \<Rightarrow> jsval list \<Rightarrow> string \<Rightarrow> (jsval \<times> string) option"
  and json_members :: "nat \<Rightarrow> (string \<times> jsval) list \<Rightarrow> string \<Rightarrow> (jsval \<times> string) option"
where
  "json_value 0 s = None"
| "json_value (Suc n) s =
     (if s = [] then None
      else if hd s = CHR ''{'' then
        (let r = skip_ws (tl s)
         in if r \<noteq> [] \<and> hd r = CHR ''}'' then Some (JObj [], tl r) else json_members n [] r)
      else if hd s = CHR ''['' then
        (let r = skip_ws (tl s)
         in if r \<noteq> [] \<and> hd r = CHR '']'' then Some (JArr [], tl r) else json_elements n [] r)
      else if hd s = CHR 0x22 then
        (case json_chars (tl s) of
           None \<Rightarrow> None
         | Some (str, rest) \<Rightarrow> Some (JStr str, rest))
      else if take 4 s = ''null'' then Some (JNull, drop 4 s)
      else if take 4 s = ''true'' then Some (JBool True, drop 4 s)
      else if take 5 s = ''false'' then Some (JBool False, drop 5 s)
      else json_number s)"
| "json_elements 0 acc s = None"
| "json_elements (Suc n) acc s =
     (case json_value n s of
        None \<Rightarrow> None
      | Some (v, r) \<Rightarrow>
          (let r' = skip_ws r
           in if r' = [] then None
              else if hd r' = CHR '','' then json_elements n (acc @ [v]) (skip_ws (tl r'))
              else if hd r' = CHR '']'' then Some (JArr (acc @ [v]), tl r')
              else None))"
| "json_members 0 acc s = None"
| "json_members (Suc n) acc s =
     (if s = [] \<or> hd s \<noteq> CHR 0x22 then None
      else
        (case json_chars (tl s) of
           None \<Rightarrow> None
         | Some (k, r) \<Rightarrow>
             (let r1 = skip_ws r
              in if r1 = [] \<or> hd r1 \<noteq> CHR '':'' then None
                 else
                   (case json_value n (skip_ws (tl r1)) of
                      None \<Rightarrow> None
                    | Some (v, r2) \<Rightarrow>
                        (let r3 = skip_ws r2
                         in if r3 = [] then None
                            else if hd r3 = CHR '','' then
                              json_members n (set_prop k v acc) (skip_ws (tl r3))
                            else if hd r3 = CHR ''}'' then
                              Some (JObj (set_prop k v acc), tl r3)
                            else None)))))"

definition JSON_parse :: "string \<Rightarrow> jsval option" where
  "JSON_parse s =
     (case json_value (Suc (length s)) (skip_ws s) of
        None \<Rightarrow> None
      | Some (v, rest) \<Rightarrow> if skip_ws rest = [] then Some v else None)"

subsection \<open>Best-effort parsing\<close>

text \<open>
  Modelled from the spec: \<open>parse\<close> of the package \<open>best-effort-json-parser\<close>, which is
  not among the sources. The spec calls it a fault-tolerant JSON parser that returns a
  partial or best-guess value on malformed or incomplete input, and has the chart receive
  an undefined dataset when the parser is handed \<open>undefined\<close>. So: \<open>undefined\<close> comes back
  as it is, text that decodes as JSON yields the decoded value, and everything else is
  left to \<open>recover\<close>, about which nothing is assumed.
\<close>

definition best_effort_parse :: "parser \<Rightarrow> parser" where
  "best_effort_parse recover v =
     (case v of
        JUndefined \<Rightarrow> Inr JUndefined
      | JStr s \<Rightarrow> (case JSON_parse s of Some r \<Rightarrow> Inr r | None \<Rightarrow> recover v)
      | _ \<Rightarrow> recover v)"

text \<open>
  A recovery to run examples with: whatever does not decode is answered with the empty
  object.
\<close>

definition empty_guess :: parser where
  "empty_guess v = Inr (JObj [])"

text \<open>
  A second recovery to run examples with: text that does not decode is answered with the
  empty object, and an argument that is not text makes the parser raise, as a parser that
  works on its argument as a string does.
\<close>

definition strings_only :: parser where
  "strings_only v =
     (case v of JStr s \<Rightarrow> Inr (JObj []) | _ \<Rightarrow> Inl (ParserThrew ''not a string''))"

text \<open>
  Modelled from the spec: the contract of the absent parser. It must not raise on
  incomplete or malformed input, which is text, and handed \<open>undefined\<close> it has the chart
  receive an undefined dataset. Nothing is promised for other arguments.
\<close>

definition fault_tolerant :: "parser \<Rightarrow> bool" where
  "fault_tolerant parse \<longleftrightarrow>
     (\<forall>s. \<exists>r. parse (JStr s) = Inr r) \<and> parse JUndefined = Inr JUndefined"

section \<open>Invocations in time\<close>

text \<open>
  The same function component with the parser's effects written out. A call of the
  parser happens in a world \<open>'w\<close> (whatever the parser keeps, reads or changes besides its
  argument) and leaves a world behind; the component threads it through its two calls and
  touches nothing else.
\<close>

type_synonym 'w stateful_parser = "'w \<Rightarrow> jsval \<Rightarrow> (js_error + jsval) \<times> 'w"

definition ModelTradeRenderer_in ::
  "'w stateful_parser \<Rightarrow> 'w \<Rightarrow> props \<Rightarrow> (js_error + vnode) \<times> 'w" where
  "ModelTradeRenderer_in parse w p =
     (case parse w (JStr (content p)) of
        (Inl e, w1) \<Rightarrow> (Inl e, w1)
      | (Inr envelope, w1) \<Rightarrow>
          (case destructure envelope of
             Inl e \<Rightarrow> (Inl e, w1)
           | Inr (title, data) \<Rightarrow>
               (case parse w1 data of
                  (Inl e, w2) \<Rightarrow> (Inl e, w2)
                | (Inr parsedData, w2) \<Rightarrow> (Inr (markup title parsedData), w2))))"

text \<open>
  Modelled from the spec: \<open>memo\<close> of the package \<open>react\<close>, which is not among the
  sources. The spec has the wrapped component skip its render when the props are unchanged
  by shallow comparison. The cache holds the props and the output of the last render that
  returned; both props are primitives, so shallow comparison is equality of the props.
  A skipped render calls nothing, so the world stays as it was.
\<close>

type_synonym cache = "(props \<times> vnode) option"

definition memo ::
  "('w \<Rightarrow> props \<Rightarrow> (js_error + vnode) \<times> 'w) \<Rightarrow> cache \<times> 'w \<Rightarrow> props
     \<Rightarrow> (js_error + vnode) \<times> (cache \<times> 'w)" where
  "memo component st p =
     (let rerender = (case component (snd st) p of
                        (Inl e, w') \<Rightarrow> (Inl e, (None, w'))
                      | (Inr out, w') \<Rightarrow> (Inr out, (Some (p, out), w')))
      in case fst st of
           None \<Rightarrow> rerender
         | Some (q, out) \<Rightarrow> if q = p then (Inr out, st) else rerender)"

text \<open>The module's default export, \<open>memo(ModelTradeRenderer)\<close>.\<close>

definition default_export ::
  "'w stateful_parser \<Rightarrow> cache \<times> 'w \<Rightarrow> props \<Rightarrow> (js_error + vnode) \<times> (cache \<times> 'w)" where
  "default_export parse = memo (ModelTradeRenderer_in parse)"

text \<open>
  What a mounted instance of the default export shows over a sequence of props handed to
  it, and what the unwrapped component returns when it is invoked on each of them in turn.
\<close>

fun memoised_outputs ::
  "'w stateful_parser \<Rightarrow> cache \<times> 'w \<Rightarrow> props list \<Rightarrow> (js_error + vnode) list" where
  "memoised_outputs parse st [] = []"
| "memoised_outputs parse st (p # ps) =
     (case default_export parse st p of (out, st') \<Rightarrow> out # memoised_outputs parse st' ps)"

fun plain_outputs ::
  "'w stateful_parser \<Rightarrow> 'w \<Rightarrow> props list \<Rightarrow> (js_error + vnode) list" where
  "plain_outputs parse w [] = []"
| "plain_outputs parse w (p # ps) =
     (case ModelTradeRenderer_in parse w p of (out, w') \<Rightarrow> out # plain_outputs parse w' ps)"

text \<open>A parser whose answer depends on its argument alone, whatever the world.\<close>

definition answers_fixed :: "'w stateful_parser \<Rightarrow> bool" where
  "answers_fixed parse \<longleftrightarrow> (\<forall>w w' v. fst (parse w v) = fst (parse w' v))"

text \<open>A parser to run examples with: the world counts its calls.\<close>

definition counting_parse :: "nat stateful_parser" where
  "counting_parse n v = (best_effort_parse strings_only v, Suc n)"

section \<open>Reading the element tree\<close>

fun children :: "vnode \<Rightarrow> vnode list" where
  "children (Element tag cls cs) = cs"
| "children v = []"

fun descend :: "nat list \<Rightarrow> vnode \<Rightarrow> vnode option" where
  "descend [] v = Some v"
| "descend (i # path) v =
     (if i < length (children v) then descend path (children v ! i) else None)"

fun components :: "vnode \<Rightarrow> (string \<times> (string \<times> jsval) list) list" where
  "components (Element tag cls cs) = concat (map components cs)"
| "components (Component name ps) = [(name, ps)]"
| "components v = []"

fun texts :: "vnode \<Rightarrow> string list" where
  "texts (Element tag cls cs) = concat (map texts cs)"
| "texts (Text s) = [s]"
| "texts v = []"

text \<open>The children of the \<open>h3\<close>: first child of the upper region.\<close>

definition heading :: "vnode \<Rightarrow> vnode list" where
  "heading t = (case descend [0, 0] t of Some h \<Rightarrow> children h | None \<Rightarrow> [])"

text \<open>The props of every chart element in the tree.\<close>

definition chart_props :: "vnode \<Rightarrow> (string \<times> jsval) list list" where
  "chart_props t = map snd (filter (\<lambda>c. fst c = ''MultiLineChart'') (components t))"

text \<open>
  The lower region of the tree, and the texts of the numbered lines under its label.
\<close>

definition disclaimer :: "vnode \<Rightarrow> vnode option" where
  "disclaimer t = descend [1] t"

definition disclaimer_lines :: "vnode \<Rightarrow> string list" where
  "disclaimer_lines t = (case descend [1, 1] t of Some d \<Rightarrow> texts d | None \<Rightarrow> [])"

section \<open>Mounting\<close>

text \<open>
  Modelled from the spec: mounting the returned tree, done by the packages \<open>react\<close> and
  \<open>react-dom\<close>, which are not among the sources. The spec has the title shown as display
  text, an undefined title leave the heading empty, and the chart widget's own rendering
  left to the widget. An embedded value becomes child nodes: nothing for \<open>undefined\<close>,
  \<open>null\<close> and booleans, text for strings and numbers, the nodes of its elements for an array;
  an object is refused as a child, and the mount throws. A component element is handed its
  props and looked into no further.
\<close>

datatype dom =
    Host string string "dom list"
  | Chars string
  | Digits int
  | Widget string "(string \<times> jsval) list"

datatype mount_error = InvalidChild

fun collect :: "('e + 'a list) list \<Rightarrow> 'e + 'a list" where
  "collect [] = Inr []"
| "collect (x # xs) =
     (case x of
        Inl e \<Rightarrow> Inl e
      | Inr a \<Rightarrow> (case collect xs of Inl e \<Rightarrow> Inl e | Inr b \<Rightarrow> Inr (a @ b)))"

fun child_nodes :: "jsval \<Rightarrow> mount_error + dom list" where
  "child_nodes JUndefined = Inr []"
| "child_nodes JNull = Inr []"
| "child_nodes (JBool b) = Inr []"
| "child_nodes (JNum n) = Inr [Digits n]"
| "child_nodes (JStr s) = Inr [Chars s]"
| "child_nodes (JArr vs) = collect (map child_nodes vs)"
| "child_nodes (JObj ps) = Inl InvalidChild"

fun mount :: "vnode \<Rightarrow> mount_error + dom list" where
  "mount (Element tag cls cs) =
     (case collect (map mount cs) of Inl e \<Rightarrow> Inl e | Inr ds \<Rightarrow> Inr [Host tag cls ds])"
| "mount (Text s) = Inr [Chars s]"
| "mount (Expr v) = child_nodes v"
| "mount (Component name ps) = Inr [Widget name ps]"

text \<open>The values that can stand as a child: no object, at any depth of arrays.\<close>

fun renderable :: "jsval \<Rightarrow> bool" where
  "renderable (JObj ps) = False"
| "renderable (JArr vs) = list_all renderable vs"
| "renderable v = True"

text \<open>The mounted \<open>h3\<close>.\<close>

definition mounted_heading :: "vnode \<Rightarrow> mount_error + dom list" where
  "mounted_heading t = (case descend [0, 0] t of Some h \<Rightarrow> mount h | None \<Rightarrow> Inr [])"

section \<open>Example contents\<close>

text \<open>\<open>JSON.stringify\<close> on a string without control characters.\<close>

fun escape_chars :: "string \<Rightarrow> string" where
  "escape_chars [] = []"
| "escape_chars (c # cs) =
     (if c = CHR 0x22 \<or> c = CHR 0x5C then CHR 0x5C # c # escape_chars cs
      else c # escape_chars cs)"

definition stringify_string :: "string \<Rightarrow> string" where
  "stringify_string s = CHR 0x22 # escape_chars s @ [CHR 0x22]"

text \<open>The envelope of the spec's first testable property.\<close>

definition example_content :: string where
  \<open>example_content =
     ''{"title":"T","data":'' @ stringify_string ''[["Time","A"],["2024-01",1]]'' @ ''}''\<close>

section \<open>Facts about a render\<close>

lemma render_ok:
  assumes "parse (JStr (content p)) = Inr env" and "env \<noteq> JNull" and "env \<noteq> JUndefined"
    and "parse (read_field env Data) = Inr d"
  shows "ModelTradeRenderer parse p = Inr (markup (read_field env Title) d)"
  using assms by (simp add: ModelTradeRenderer_def destructure_def)

lemma render_Inr:
  assumes "ModelTradeRenderer parse p = Inr t"
  shows "\<exists>env d. parse (JStr (content p)) = Inr env \<and> env \<noteq> JNull \<and> env \<noteq> JUndefined
           \<and> parse (read_field env Data) = Inr d \<and> t = markup (read_field env Title) d"
  using assms
  by (auto simp: ModelTradeRenderer_def destructure_def split: sum.splits if_splits)

lemma render_nullish:
  assumes "parse (JStr (content p)) = Inr env" and "env = JNull \<or> env = JUndefined"
  shows "ModelTradeRenderer parse p = Inl TypeError"
  using assms by (auto simp: ModelTradeRenderer_def destructure_def)

lemma render_content_only:
  "content p = content q \<Longrightarrow> ModelTradeRenderer parse p = ModelTradeRenderer parse q"
  by (simp add: ModelTradeRenderer_def)

lemma heading_markup: "heading (markup t d) = [Expr t]"
  by (simp add: heading_def markup_def)

lemma chart_props_markup:
  "chart_props (markup t d) = [[(''data'', d), (''height'', JStr ''90%'')]]"
  by (simp add: chart_props_def markup_def)

lemma disclaimer_markup: "disclaimer (markup t d) = disclaimer (markup t' d')"
  by (simp add: disclaimer_def markup_def)

lemma disclaimer_lines_markup:
  "disclaimer_lines (markup t d) =
     [''1. The AI tools are for simulation only and do not provide investment advice'',
      ''2. The tools may contain errors or delays and cannot account for all market factors. You are solely responsible for your trading decisions. Use caution ''
        @ dash_bytes @ '' markets involve risk.'']"
  by (simp add: disclaimer_lines_def markup_def)

lemma parse_undefined: "best_effort_parse recover JUndefined = Inr JUndefined"
  by (simp add: best_effort_parse_def)

lemma parse_example_content:
  \<open>best_effort_parse empty_guess (JStr example_content) =
     Inr (JObj [(''title'', JStr ''T''), (''data'', JStr ''[["Time","A"],["2024-01",1]]'')])\<close>
  by code_simp

lemma parse_example_data:
  \<open>best_effort_parse empty_guess (JStr ''[["Time","A"],["2024-01",1]]'') =
     Inr (JArr [JArr [JStr ''Time'', JStr ''A''], JArr [JStr ''2024-01'', JNum 1]])\<close>
  by code_simp

lemma parse_null: "best_effort_parse recover (JStr ''null'') = Inr JNull"
  by (simp add: best_effort_parse_def JSON_parse_def skip_ws_def is_ws_def)

lemma parse_empty_object: "best_effort_parse recover (JStr ''{}'') = Inr (JObj [])"
  by (simp add: best_effort_parse_def JSON_parse_def skip_ws_def is_ws_def)

lemma collect_all:
  "(\<And>x. x \<in> set xs \<Longrightarrow> \<exists>a. x = Inr a) \<Longrightarrow> \<exists>b. collect xs = Inr b"
  by (induction xs) (fastforce split: sum.splits)+

lemma collect_Inr:
  "collect xs = Inr b \<Longrightarrow> x \<in> set xs \<Longrightarrow> \<exists>a. x = Inr a"
  by (induction xs arbitrary: b) (auto split: sum.splits)

lemma child_nodes_renderable: "(\<exists>ds. child_nodes v = Inr ds) \<longleftrightarrow> renderable v"
proof (induction v rule: child_nodes.induct)
  case (6 vs)
  show ?case
  proof
    assume "\<exists>ds. child_nodes (JArr vs) = Inr ds"
    then obtain ds where "collect (map child_nodes vs) = Inr ds" by auto
    then have "\<And>v. v \<in> set vs \<Longrightarrow> \<exists>a. child_nodes v = Inr a"
      using collect_Inr by fastforce
    with 6 show "renderable (JArr vs)" by (simp add: list_all_iff)
  next
    assume "renderable (JArr vs)"
    then have "\<And>v. v \<in> set vs \<Longrightarrow> \<exists>a. child_nodes v = Inr a"
      using 6 by (simp add: list_all_iff)
    then have "\<exists>b. collect (map child_nodes vs) = Inr b"
      by (intro collect_all) auto
    then show "\<exists>ds. child_nodes (JArr vs) = Inr ds" by simp
  qed
qed simp_all

lemma mount_markup:
  "(\<exists>dom. mount (markup t d) = Inr dom) \<longleftrightarrow> renderable t"
proof -
  have "(\<exists>dom. mount (markup t d) = Inr dom) \<longleftrightarrow> (\<exists>ds. child_nodes t = Inr ds)"
    by (cases "child_nodes t") (simp_all add: markup_def)
  then show ?thesis by (simp add: child_nodes_renderable)
qed

lemma best_effort_fault_tolerant:
  assumes "\<And>s. \<exists>r. recover (JStr s) = Inr r"
  shows "fault_tolerant (best_effort_parse recover)"
  unfolding fault_tolerant_def best_effort_parse_def
  using assms by (auto split: option.splits)

lemma strings_only_fault_tolerant: "fault_tolerant (best_effort_parse strings_only)"
  by (rule best_effort_fault_tolerant) (simp add: strings_only_def)

lemma parse_data_ok:
  assumes "fault_tolerant parse" and "data = JUndefined \<or> (\<exists>s. data = JStr s)"
  shows "\<exists>d. parse data = Inr d"
  using assms by (auto simp: fault_tolerant_def)

lemma mounted_heading_undefined:
  "mounted_heading (markup JUndefined d) = Inr [Host ''h3'' ''font-semibold text-base text-gray-950'' []]"
  by (simp add: mounted_heading_def markup_def)

lemma render_in_pure:
  "ModelTradeRenderer_in (\<lambda>w v. (parse v, w)) w p = (ModelTradeRenderer parse p, w)"
  by (simp add: ModelTradeRenderer_in_def ModelTradeRenderer_def split: sum.splits)

lemma render_in_answer:
  assumes "answers_fixed parse"
  shows "fst (ModelTradeRenderer_in parse w p) = ModelTradeRenderer (\<lambda>v. fst (parse w0 v)) p"
proof -
  have fixed: "fst (parse u v) = fst (parse w0 v)" for u v
    using assms by (simp add: answers_fixed_def)
  obtain r1 w1 where first: "parse w (JStr (content p)) = (r1, w1)"
    by (cases "parse w (JStr (content p))")
  then have r1: "fst (parse w0 (JStr (content p))) = r1"
    using fixed [of w "JStr (content p)"] by simp
  show ?thesis
  proof (cases r1)
    case (Inl e)
    with first r1 show ?thesis
      by (simp add: ModelTradeRenderer_in_def ModelTradeRenderer_def)
  next
    case (Inr envelope)
    show ?thesis
    proof (cases "destructure envelope")
      case (Inl e)
      with Inr first r1 show ?thesis
        by (simp add: ModelTradeRenderer_in_def ModelTradeRenderer_def)
    next
      case right: (Inr td)
      obtain title data where td: "td = (title, data)" by (cases td)
      obtain r2 w2 where second: "parse w1 data = (r2, w2)"
        by (cases "parse w1 data")
      then have r2: "fst (parse w0 data) = r2"
        using fixed [of w1 data] by simp
      from Inr right td first second r1 r2 show ?thesis
        by (cases r2) (simp_all add: ModelTradeRenderer_in_def ModelTradeRenderer_def)
    qed
  qed
qed

lemma plain_outputs_answer:
  assumes "answers_fixed parse"
  shows "plain_outputs parse w ps = map (ModelTradeRenderer (\<lambda>v. fst (parse w0 v))) ps"
proof (induction ps arbitrary: w)
  case Nil
  then show ?case by simp
next
  case (Cons p ps)
  obtain out w' where step: "ModelTradeRenderer_in parse w p = (out, w')"
    by (cases "ModelTradeRenderer_in parse w p")
  then have "out = ModelTradeRenderer (\<lambda>v. fst (parse w0 v)) p"
    using render_in_answer [OF assms, of w p w0] by simp
  with step Cons.IH [of w'] show ?case by simp
qed

lemma memoised_outputs_answer:
  assumes "answers_fixed parse"
    and "case fst st of None \<Rightarrow> True
         | Some (q, out) \<Rightarrow> ModelTradeRenderer (\<lambda>v. fst (parse w0 v)) q = Inr out"
  shows "memoised_outputs parse st ps = map (ModelTradeRenderer (\<lambda>v. fst (parse w0 v))) ps"
  using assms(2)
proof (induction ps arbitrary: st)
  case Nil
  then show ?case by simp
next
  case (Cons p ps)
  let ?f = "ModelTradeRenderer (\<lambda>v. fst (parse w0 v))"
  obtain out st' where step: "default_export parse st p = (out, st')"
    by (cases "default_export parse st p")
  obtain r w' where run: "ModelTradeRenderer_in parse (snd st) p = (r, w')"
    by (cases "ModelTradeRenderer_in parse (snd st) p")
  then have r: "r = ?f p"
    using render_in_answer [OF assms(1), of "snd st" p w0] by simp
  from step run r Cons.prems
  have "out = ?f p \<and> (case fst st' of None \<Rightarrow> True | Some (q, out) \<Rightarrow> ?f q = Inr out)"
    by (auto simp: default_export_def memo_def Let_def split: option.splits sum.splits if_splits)
  with step Cons.IH [of st'] show ?case by simp
qed

section \<open>The claims\<close>

text \<open>
  C1. When the parser turns the content into an envelope object whose \<open>title\<close> is \<open>t\<close> and
  whose \<open>data\<close> is a string \<open>s\<close>, the render returns the tree whose heading shows \<open>t\<close> and
  whose chart is handed the parser's result on \<open>s\<close>: the data is parsed a second time.
\<close>

theorem double_parse_dataset:
  assumes "parse (JStr (content p)) = Inr (JObj ps)"
    and "map_of ps ''title'' = Some t"
    and "map_of ps ''data'' = Some (JStr s)"
    and "parse (JStr s) = Inr d"
  shows "ModelTradeRenderer parse p = Inr (markup t d)
         \<and> heading (markup t d) = [Expr t]
         \<and> chart_props (markup t d) = [[(''data'', d), (''height'', JStr ''90%'')]]"
proof -
  have "read_field (JObj ps) Title = t" and "read_field (JObj ps) Data = JStr s"
    using assms(2,3) by simp_all
  with render_ok [of parse p "JObj ps" d] assms(1,4)
  show ?thesis by (simp add: heading_markup chart_props_markup)
qed

theorem double_parse_dataset_witness:
  "ModelTradeRenderer (best_effort_parse empty_guess) \<lparr>content = example_content, height = None\<rparr>
     = Inr (markup (JStr ''T'')
             (JArr [JArr [JStr ''Time'', JStr ''A''], JArr [JStr ''2024-01'', JNum 1]]))
   \<and> heading (markup (JStr ''T'')
        (JArr [JArr [JStr ''Time'', JStr ''A''], JArr [JStr ''2024-01'', JNum 1]]))
     = [Expr (JStr ''T'')]
   \<and> chart_props (markup (JStr ''T'')
        (JArr [JArr [JStr ''Time'', JStr ''A''], JArr [JStr ''2024-01'', JNum 1]]))
     = [[(''data'', JArr [JArr [JStr ''Time'', JStr ''A''], JArr [JStr ''2024-01'', JNum 1]]),
         (''height'', JStr ''90%'')]]"
proof -
  let ?p = "\<lparr>content = example_content, height = None\<rparr>"
  have h1: \<open>best_effort_parse empty_guess (JStr (content ?p)) =
      Inr (JObj [(''title'', JStr ''T''), (''data'', JStr ''[["Time","A"],["2024-01",1]]'')])\<close>
    using parse_example_content by simp
  have h2: \<open>map_of [(''title'', JStr ''T''), (''data'', JStr ''[["Time","A"],["2024-01",1]]'')]
      ''title'' = Some (JStr ''T'')\<close>
    by simp
  have h3: \<open>map_of [(''title'', JStr ''T''), (''data'', JStr ''[["Time","A"],["2024-01",1]]'')]
      ''data'' = Some (JStr ''[["Time","A"],["2024-01",1]]'')\<close>
    by simp
  show ?thesis
    by (rule double_parse_dataset [OF h1 h2 h3 parse_example_data])
qed

text \<open>
  C2, as the spec has it: no string content makes the render throw, and the component
  mounts. Three contents show otherwise. The content \<open>null\<close> decodes to \<open>null\<close>, and
  destructuring \<open>null\<close> throws. An envelope whose \<open>data\<close> is the number 5 hands the parser
  something that is not text, and the parser raises. An envelope whose \<open>title\<close> is an object
  is returned as a tree that cannot be mounted.
\<close>

theorem render_never_throws_counterexample:
  \<open>ModelTradeRenderer (best_effort_parse strings_only) \<lparr>content = ''null'', height = Some 400\<rparr>
     = Inl TypeError
   \<and> ModelTradeRenderer (best_effort_parse strings_only)
       \<lparr>content = ''{"title":"T","data":5}'', height = Some 400\<rparr>
     = Inl (ParserThrew ''not a string'')
   \<and> ModelTradeRenderer (best_effort_parse strings_only)
       \<lparr>content = ''{"title":{"a":1},"data":"[]"}'', height = Some 400\<rparr>
     = Inr (markup (JObj [(''a'', JNum 1)]) (JArr []))
   \<and> mount (markup (JObj [(''a'', JNum 1)]) (JArr [])) = Inl InvalidChild\<close>
proof -
  let ?parse = "best_effort_parse strings_only"
  have "?parse (JStr (content \<lparr>content = ''null'', height = Some 400\<rparr>)) = Inr JNull"
    by (simp add: parse_null)
  then have first: "ModelTradeRenderer ?parse \<lparr>content = ''null'', height = Some 400\<rparr> = Inl TypeError"
    by (rule render_nullish) simp
  have e2: \<open>?parse (JStr ''{"title":"T","data":5}'') = Inr (JObj [(''title'', JStr ''T''), (''data'', JNum 5)])\<close>
    by code_simp
  have n5: "?parse (JNum 5) = Inl (ParserThrew ''not a string'')"
    by (simp add: best_effort_parse_def strings_only_def)
  have second: \<open>ModelTradeRenderer ?parse \<lparr>content = ''{"title":"T","data":5}'', height = Some 400\<rparr>
      = Inl (ParserThrew ''not a string'')\<close>
    using e2 n5 by (simp add: ModelTradeRenderer_def destructure_def)
  have e3: \<open>?parse (JStr ''{"title":{"a":1},"data":"[]"}'')
      = Inr (JObj [(''title'', JObj [(''a'', JNum 1)]), (''data'', JStr ''[]'')])\<close>
    by code_simp
  have inner: "?parse (JStr ''[]'') = Inr (JArr [])"
    by code_simp
  have third: \<open>ModelTradeRenderer ?parse \<lparr>content = ''{"title":{"a":1},"data":"[]"}'', height = Some 400\<rparr>
      = Inr (markup (JObj [(''a'', JNum 1)]) (JArr []))\<close>
    using e3 inner by (simp add: ModelTradeRenderer_def destructure_def)
  have fourth: "mount (markup (JObj [(''a'', JNum 1)]) (JArr [])) = Inl InvalidChild"
    by (simp add: markup_def)
  from first second third fourth show ?thesis by blast
qed

text \<open>
  C2, amended: take the parser at its contract. For every content, truncated or malformed
  ones included, whose parse is neither \<open>null\<close> nor \<open>undefined\<close>, whose \<open>title\<close> can stand as
  a child and whose \<open>data\<close> is absent or a string, the render returns and the returned tree
  mounts; the title and the dataset may be \<open>undefined\<close>.
\<close>

theorem render_mounts:
  assumes "fault_tolerant parse"
    and "parse (JStr (content p)) = Inr env"
    and "env \<noteq> JNull" and "env \<noteq> JUndefined"
    and "renderable (read_field env Title)"
    and "read_field env Data = JUndefined \<or> (\<exists>s. read_field env Data = JStr s)"
  shows "\<exists>d dom. ModelTradeRenderer parse p = Inr (markup (read_field env Title) d)
           \<and> mount (markup (read_field env Title) d) = Inr dom"
proof -
  obtain d where d: "parse (read_field env Data) = Inr d"
    using parse_data_ok [OF assms(1,6)] by blast
  have "ModelTradeRenderer parse p = Inr (markup (read_field env Title) d)"
    by (rule render_ok [OF assms(2,3,4) d])
  moreover obtain dom where "mount (markup (read_field env Title) d) = Inr dom"
    using assms(5) mount_markup [of "read_field env Title" d] by blast
  ultimately show ?thesis by blast
qed

theorem render_mounts_witness:
  \<open>\<exists>d dom. ModelTradeRenderer (best_effort_parse strings_only) \<lparr>content = ''{"tit'', height = None\<rparr>
             = Inr (markup JUndefined d)
         \<and> mount (markup JUndefined d) = Inr dom\<close>
proof -
  let ?parse = "best_effort_parse strings_only"
  let ?p = \<open>\<lparr>content = ''{"tit'', height = None\<rparr>\<close>
  have dec: \<open>?parse (JStr ''{"tit'') = Inr (JObj [])\<close>
    by code_simp
  have h2: "?parse (JStr (content ?p)) = Inr (JObj [])"
    using dec by simp
  have h3: "JObj [] \<noteq> JNull" and h4: "JObj [] \<noteq> JUndefined" by simp_all
  have h5: "renderable (read_field (JObj []) Title)" by simp
  have h6: "read_field (JObj []) Data = JUndefined \<or> (\<exists>s. read_field (JObj []) Data = JStr s)"
    by simp
  have t: "read_field (JObj []) Title = JUndefined" by simp
  show ?thesis
    using render_mounts [OF strings_only_fault_tolerant h2 h3 h4 h5 h6] unfolding t .
qed

text \<open>
  C3. Whenever the parser answers \<open>null\<close> or \<open>undefined\<close> for the content, the render throws
  a \<open>TypeError\<close>; and the content \<open>null\<close> is such a string, whatever the parser does with
  text that is not JSON.
\<close>

theorem null_envelope_throws:
  "(parse (JStr (content p)) = Inr JNull \<or> parse (JStr (content p)) = Inr JUndefined
      \<longrightarrow> ModelTradeRenderer parse p = Inl TypeError)
   \<and> best_effort_parse recover (JStr ''null'') = Inr JNull
   \<and> ModelTradeRenderer (best_effort_parse recover) \<lparr>content = ''null'', height = h\<rparr>
       = Inl TypeError"
proof -
  have general: "ModelTradeRenderer parse' p' = Inl TypeError"
    if "parse' (JStr (content p')) = Inr JNull \<or> parse' (JStr (content p')) = Inr JUndefined"
    for parse' p'
    using that render_nullish [of parse' p'] by blast
  have "best_effort_parse recover (JStr (content \<lparr>content = ''null'', height = h\<rparr>)) = Inr JNull"
    by (simp add: parse_null)
  then have "ModelTradeRenderer (best_effort_parse recover) \<lparr>content = ''null'', height = h\<rparr>
               = Inl TypeError"
    using general by blast
  with general [of parse p] parse_null [of recover] show ?thesis
    by blast
qed

theorem null_envelope_throws_witness:
  "best_effort_parse empty_guess (JStr (content \<lparr>content = ''null'', height = None\<rparr>)) = Inr JNull
   \<and> ModelTradeRenderer (best_effort_parse empty_guess) \<lparr>content = ''null'', height = None\<rparr>
       = Inl TypeError"
proof -
  let ?parse = "best_effort_parse empty_guess"
  let ?p = "\<lparr>content = ''null'', height = None\<rparr>"
  have h: "?parse (JStr (content ?p)) = Inr JNull"
    by (simp add: parse_null)
  then have "?parse (JStr (content ?p)) = Inr JNull \<or> ?parse (JStr (content ?p)) = Inr JUndefined"
    by (rule disjI1)
  with null_envelope_throws [of ?parse ?p] h show ?thesis
    by blast
qed

text \<open>
  C4. Any two renders that return, whatever their parsers and props, have the same lower
  region, and its numbered lines are the two fixed texts.
\<close>

theorem disclaimer_fixed:
  assumes "ModelTradeRenderer parse p = Inr tree"
    and "ModelTradeRenderer parse' p' = Inr tree'"
  shows "disclaimer tree' = disclaimer tree
    \<and> disclaimer_lines tree =
       [''1. The AI tools are for simulation only and do not provide investment advice'',
        ''2. The tools may contain errors or delays and cannot account for all market factors. You are solely responsible for your trading decisions. Use caution ''
          @ dash_bytes @ '' markets involve risk.'']"
proof -
  obtain t d where tree: "tree = markup t d"
    using render_Inr [OF assms(1)] by blast
  obtain t' d' where tree': "tree' = markup t' d'"
    using render_Inr [OF assms(2)] by blast
  show ?thesis
    unfolding tree tree' using disclaimer_markup [of t' d' t d] disclaimer_lines_markup [of t d]
    by blast
qed

theorem disclaimer_fixed_witness:
  "disclaimer (markup JUndefined JUndefined)
     = disclaimer (markup (JStr ''T'')
         (JArr [JArr [JStr ''Time'', JStr ''A''], JArr [JStr ''2024-01'', JNum 1]]))
   \<and> disclaimer_lines (markup (JStr ''T'')
         (JArr [JArr [JStr ''Time'', JStr ''A''], JArr [JStr ''2024-01'', JNum 1]])) =
       [''1. The AI tools are for simulation only and do not provide investment advice'',
        ''2. The tools may contain errors or delays and cannot account for all market factors. You are solely responsible for your trading decisions. Use caution ''
          @ dash_bytes @ '' markets involve risk.'']"
proof -
  let ?parse = "best_effort_parse empty_guess"
  have first: "ModelTradeRenderer ?parse \<lparr>content = example_content, height = None\<rparr>
      = Inr (markup (JStr ''T'')
              (JArr [JArr [JStr ''Time'', JStr ''A''], JArr [JStr ''2024-01'', JNum 1]]))"
    by (simp add: ModelTradeRenderer_def destructure_def parse_example_content
          parse_example_data)
  have second: "ModelTradeRenderer ?parse \<lparr>content = ''{}'', height = Some 400\<rparr>
      = Inr (markup JUndefined JUndefined)"
    by (simp add: ModelTradeRenderer_def destructure_def parse_empty_object parse_undefined)
  show ?thesis
    by (rule disclaimer_fixed [OF first second])
qed

text \<open>
  C5, as the spec has it: some two renders that differ only in \<open>height\<close> differ in their
  output. There is no such pair: the component reads \<open>content\<close> alone.
\<close>

theorem height_forwarded_counterexample:
  "\<not> (\<exists>parse c h h'. ModelTradeRenderer parse \<lparr>content = c, height = h\<rparr>
                         \<noteq> ModelTradeRenderer parse \<lparr>content = c, height = h'\<rparr>)"
  using render_content_only by simp

text \<open>
  C5, amended: \<open>height\<close> is accepted and not used. Renders that differ only in \<open>height\<close>
  have the same outcome.
\<close>

theorem height_ignored:
  "ModelTradeRenderer parse (p\<lparr>height := h\<rparr>) = ModelTradeRenderer parse p"
  by (rule render_content_only) simp

text \<open>
  C6. Every render that returns holds exactly one chart element, and its \<open>height\<close> prop is
  the string \<open>90%\<close>.
\<close>

theorem chart_height_constant:
  assumes "ModelTradeRenderer parse p = Inr tree"
  shows "map (\<lambda>ps. map_of ps ''height'') (chart_props tree) = [Some (JStr ''90%'')]"
proof -
  obtain t d where "tree = markup t d"
    using render_Inr [OF assms] by blast
  then show ?thesis
    by (simp add: chart_props_markup)
qed

theorem chart_height_constant_witness:
  "map (\<lambda>ps. map_of ps ''height'')
     (chart_props (markup (JStr ''T'')
        (JArr [JArr [JStr ''Time'', JStr ''A''], JArr [JStr ''2024-01'', JNum 1]])))
   = [Some (JStr ''90%'')]"
proof -
  have "ModelTradeRenderer (best_effort_parse empty_guess)
          \<lparr>content = example_content, height = Some 400\<rparr>
      = Inr (markup (JStr ''T'')
              (JArr [JArr [JStr ''Time'', JStr ''A''], JArr [JStr ''2024-01'', JNum 1]]))"
    by (simp add: ModelTradeRenderer_def destructure_def parse_example_content
          parse_example_data)
  then show ?thesis
    by (rule chart_height_constant)
qed

text \<open>
  C7. When the envelope has no \<open>data\<close>, the second call of the parser is on \<open>undefined\<close>, and
  the render is whatever that call gives. With the modelled parser the call returns
  \<open>undefined\<close>, so the render returns and the chart is handed an undefined dataset.
\<close>

theorem missing_data_undefined_dataset:
  assumes "parse (JStr (content p)) = Inr env"
    and "env \<noteq> JNull" and "env \<noteq> JUndefined"
    and "read_field env Data = JUndefined"
  shows "ModelTradeRenderer parse p =
           (case parse JUndefined of
              Inl e \<Rightarrow> Inl e
            | Inr d \<Rightarrow> Inr (markup (read_field env Title) d))
    \<and> (parse = best_effort_parse recover \<longrightarrow>
         ModelTradeRenderer parse p = Inr (markup (read_field env Title) JUndefined)
         \<and> map (\<lambda>ps. map_of ps ''data'') (chart_props (markup (read_field env Title) JUndefined))
             = [Some JUndefined])"
proof -
  have step: "ModelTradeRenderer parse p =
           (case parse JUndefined of
              Inl e \<Rightarrow> Inl e
            | Inr d \<Rightarrow> Inr (markup (read_field env Title) d))"
    using assms by (simp add: ModelTradeRenderer_def destructure_def)
  then show ?thesis
    by (auto simp: parse_undefined chart_props_markup)
qed

theorem missing_data_undefined_dataset_witness:
  \<open>ModelTradeRenderer (best_effort_parse empty_guess) \<lparr>content = ''{"title":"T"}'', height = None\<rparr>
     = Inr (markup (JStr ''T'') JUndefined)
   \<and> map (\<lambda>ps. map_of ps ''data'') (chart_props (markup (JStr ''T'') JUndefined))
       = [Some JUndefined]\<close>
proof -
  let ?parse = "best_effort_parse empty_guess"
  let ?p = \<open>\<lparr>content = ''{"title":"T"}'', height = None\<rparr>\<close>
  have dec: \<open>?parse (JStr ''{"title":"T"}'') = Inr (JObj [(''title'', JStr ''T'')])\<close>
    by code_simp
  have h1: "?parse (JStr (content ?p)) = Inr (JObj [(''title'', JStr ''T'')])"
    using dec by simp
  have h2: "JObj [(''title'', JStr ''T'')] \<noteq> JNull" by simp
  have h3: "JObj [(''title'', JStr ''T'')] \<noteq> JUndefined" by simp
  have h4: "read_field (JObj [(''title'', JStr ''T'')]) Data = JUndefined" by simp
  have t: "read_field (JObj [(''title'', JStr ''T'')]) Title = JStr ''T''" by simp
  show ?thesis
    using missing_data_undefined_dataset
            [of ?parse ?p "JObj [(''title'', JStr ''T'')]" empty_guess, OF h1 h2 h3 h4]
    unfolding t by blast
qed

text \<open>
  C8. Take a parser whose answers depend on its argument alone. Two invocations of the
  component on the same content, in any two worlds and with any heights, return the same
  output; and a mounted instance of the memoised component shows, over any sequence of
  props, exactly what the plain component returns when invoked on each of them, in
  whatever worlds the two runs take place.
\<close>

theorem memo_preserves_output:
  assumes "answers_fixed parse"
  shows "(content p = content q \<longrightarrow>
           fst (ModelTradeRenderer_in parse w p) = fst (ModelTradeRenderer_in parse w' q))
    \<and> memoised_outputs parse (None, w) ps = plain_outputs parse w' ps"
proof -
  have "fst (ModelTradeRenderer_in parse w p) = fst (ModelTradeRenderer_in parse w' q)"
    if "content p = content q"
    using that render_in_answer [OF assms, of w p w] render_in_answer [OF assms, of w' q w]
      render_content_only [of p q]
    by simp
  moreover have "memoised_outputs parse (None, w) ps = plain_outputs parse w' ps"
    using memoised_outputs_answer [OF assms, where st = "(None, w)" and ?w0.0 = w and ps = ps]
      plain_outputs_answer [OF assms, where w = w' and ?w0.0 = w and ps = ps]
    by simp
  ultimately show ?thesis by blast
qed

theorem memo_preserves_output_witness:
  \<open>fst (ModelTradeRenderer_in counting_parse 0 \<lparr>content = ''{"title":"T"}'', height = None\<rparr>)
     = fst (ModelTradeRenderer_in counting_parse 7 \<lparr>content = ''{"title":"T"}'', height = Some 400\<rparr>)
   \<and> memoised_outputs counting_parse (None, 0)
        [\<lparr>content = ''{"title":"T"}'', height = None\<rparr>, \<lparr>content = ''{"title":"T"}'', height = None\<rparr>,
         \<lparr>content = ''null'', height = None\<rparr>]
     = plain_outputs counting_parse 7
        [\<lparr>content = ''{"title":"T"}'', height = None\<rparr>, \<lparr>content = ''{"title":"T"}'', height = None\<rparr>,
         \<lparr>content = ''null'', height = None\<rparr>]\<close>
proof -
  let ?p = \<open>\<lparr>content = ''{"title":"T"}'', height = None\<rparr>\<close>
  let ?q = \<open>\<lparr>content = ''{"title":"T"}'', height = Some 400\<rparr>\<close>
  let ?r = \<open>\<lparr>content = ''null'', height = None\<rparr>\<close>
  have fixed: "answers_fixed counting_parse"
    by (simp add: answers_fixed_def counting_parse_def)
  have same: "content ?p = content ?q"
    by simp
  from memo_preserves_output [OF fixed, where p = ?p and q = ?q and w = 0 and w' = 7
      and ps = "[?p, ?p, ?r]"] same
  show ?thesis
    by blast
qed

text \<open>
  C9. Two contents whose envelopes are objects that agree on every key other than
  \<open>create_time\<close> have the same outcome: the same tree, or the same error.
\<close>

theorem create_time_unused:
  assumes "parse (JStr (content p)) = Inr (JObj ps)"
    and "parse (JStr (content q)) = Inr (JObj qs)"
    and "\<forall>k. k \<noteq> ''create_time'' \<longrightarrow> map_of ps k = map_of qs k"
  shows "ModelTradeRenderer parse p = ModelTradeRenderer parse q"
proof -
  have "map_of ps ''title'' = map_of qs ''title''" and "map_of ps ''data'' = map_of qs ''data''"
    using assms(3) by simp_all
  then have "destructure (JObj ps) = destructure (JObj qs)"
    by (simp add: destructure_def)
  with assms(1,2) show ?thesis
    by (simp add: ModelTradeRenderer_def)
qed

theorem create_time_unused_witness:
  \<open>ModelTradeRenderer (best_effort_parse empty_guess)
      \<lparr>content = ''{"title":"T","data":"[]","create_time":"2025-10-21 02:57:22"}'', height = None\<rparr>
    = ModelTradeRenderer (best_effort_parse empty_guess)
      \<lparr>content = ''{"title":"T","data":"[]","create_time":"later"}'', height = None\<rparr>\<close>
proof -
  let ?parse = "best_effort_parse empty_guess"
  let ?p = \<open>\<lparr>content = ''{"title":"T","data":"[]","create_time":"2025-10-21 02:57:22"}'',
             height = None\<rparr>\<close>
  let ?q = \<open>\<lparr>content = ''{"title":"T","data":"[]","create_time":"later"}'', height = None\<rparr>\<close>
  let ?ps = "[(''title'', JStr ''T''), (''data'', JStr ''[]''),
              (''create_time'', JStr ''2025-10-21 02:57:22'')]"
  let ?qs = "[(''title'', JStr ''T''), (''data'', JStr ''[]''), (''create_time'', JStr ''later'')]"
  have d1: \<open>?parse (JStr ''{"title":"T","data":"[]","create_time":"2025-10-21 02:57:22"}'')
      = Inr (JObj ?ps)\<close>
    by code_simp
  have d2: \<open>?parse (JStr ''{"title":"T","data":"[]","create_time":"later"}'') = Inr (JObj ?qs)\<close>
    by code_simp
  have h1: "?parse (JStr (content ?p)) = Inr (JObj ?ps)"
    using d1 by simp
  have h2: "?parse (JStr (content ?q)) = Inr (JObj ?qs)"
    using d2 by simp
  have h3: "\<forall>k. k \<noteq> ''create_time'' \<longrightarrow> map_of ?ps k = map_of ?qs k"
    by simp
  show ?thesis
    by (rule create_time_unused [OF h1 h2 h3])
qed

text \<open>
  C10, as the spec has it: whenever the envelope yields an undefined title the component
  still renders. The content with \<open>data\<close> the number 5 yields an undefined title, and the
  render throws: the parser is handed something that is not text.
\<close>

theorem undefined_title_counterexample:
  \<open>best_effort_parse strings_only (JStr ''{"data":5}'') = Inr (JObj [(''data'', JNum 5)])
   \<and> destructure (JObj [(''data'', JNum 5)]) = Inr (JUndefined, JNum 5)
   \<and> ModelTradeRenderer (best_effort_parse strings_only) \<lparr>content = ''{"data":5}'', height = None\<rparr>
       = Inl (ParserThrew ''not a string'')\<close>
proof -
  let ?parse = "best_effort_parse strings_only"
  have e: \<open>?parse (JStr ''{"data":5}'') = Inr (JObj [(''data'', JNum 5)])\<close>
    by code_simp
  have n5: "?parse (JNum 5) = Inl (ParserThrew ''not a string'')"
    by (simp add: best_effort_parse_def strings_only_def)
  have d: "destructure (JObj [(''data'', JNum 5)]) = Inr (JUndefined, JNum 5)"
    by (simp add: destructure_def)
  have \<open>ModelTradeRenderer ?parse \<lparr>content = ''{"data":5}'', height = None\<rparr>
      = Inl (ParserThrew ''not a string'')\<close>
    using e n5 d by (simp add: ModelTradeRenderer_def)
  with e d show ?thesis by blast
qed

text \<open>
  C10, amended: take the parser at its contract. When destructuring the envelope yields
  an undefined title and a \<open>data\<close> that is absent or a string, the render returns, the
  heading holds that title as it is, \<open>undefined\<close>, and the tree mounts with an empty \<open>h3\<close>.
\<close>

theorem undefined_title_renders:
  assumes "fault_tolerant parse"
    and "parse (JStr (content p)) = Inr env"
    and "destructure env = Inr (JUndefined, data)"
    and "data = JUndefined \<or> (\<exists>s. data = JStr s)"
  shows "\<exists>d dom. ModelTradeRenderer parse p = Inr (markup JUndefined d)
           \<and> heading (markup JUndefined d) = [Expr JUndefined]
           \<and> mount (markup JUndefined d) = Inr dom
           \<and> mounted_heading (markup JUndefined d)
               = Inr [Host ''h3'' ''font-semibold text-base text-gray-950'' []]"
proof -
  obtain d where d: "parse data = Inr d"
    using parse_data_ok [OF assms(1,4)] by blast
  have run: "ModelTradeRenderer parse p = Inr (markup JUndefined d)"
    using assms(2,3) d by (simp add: ModelTradeRenderer_def)
  obtain dom where "mount (markup JUndefined d) = Inr dom"
    using mount_markup [of JUndefined d] by auto
  with run show ?thesis
    using heading_markup [of JUndefined d] mounted_heading_undefined [of d] by blast
qed

theorem undefined_title_renders_witness:
  \<open>\<exists>d dom. ModelTradeRenderer (best_effort_parse strings_only) \<lparr>content = ''{"data":"[[1,'', height = None\<rparr>
             = Inr (markup JUndefined d)
           \<and> heading (markup JUndefined d) = [Expr JUndefined]
           \<and> mount (markup JUndefined d) = Inr dom
           \<and> mounted_heading (markup JUndefined d)
               = Inr [Host ''h3'' ''font-semibold text-base text-gray-950'' []]\<close>
proof -
  let ?parse = "best_effort_parse strings_only"
  let ?p = \<open>\<lparr>content = ''{"data":"[[1,'', height = None\<rparr>\<close>
  have dec: \<open>?parse (JStr ''{"data":"[[1,'') = Inr (JObj [])\<close>
    by code_simp
  have h2: "?parse (JStr (content ?p)) = Inr (JObj [])"
    using dec by simp
  have h3: "destructure (JObj []) = Inr (JUndefined, JUndefined)"
    by (simp add: destructure_def)
  have h4: "JUndefined = JUndefined \<or> (\<exists>s. JUndefined = JStr s)" by simp
  show ?thesis
    by (rule undefined_title_renders [OF strings_only_fault_tolerant h2 h3 h4])
qed

end
